theory Spec2Isabelle
  imports Main "HOL-Library.Sublist"
begin

section \<open>JavaScript values and the string primitives the routing code calls\<close>

text \<open>
  A JavaScript string is modelled as the byte sequence of its UTF-8 encoding (a HOL
  \<open>string\<close>); the routing code only inspects the ASCII characters \<open>:\<close>, \<open>/\<close>, \<open>?\<close>
  and \<open>$\<close>, and on well-formed text a substring search over the UTF-8 bytes finds the
  same occurrence as a search over UTF-16 code units.

  Values are the ones the source's types allow for parameters, queries and validation
  candidates. The type \<open>'n\<close> stands for JavaScript numbers; their rendering
  (\<open>Number::toString\<close>) is the parameter \<open>ns\<close> of \<open>String_js\<close>.
\<close>

datatype 'n jsval =
    JUndefined
  | JNull
  | JBool bool
  | JNum 'n
  | JStr string
  | JObj "(string \<times> 'n jsval) list"

type_synonym 'n entries = "(string \<times> 'n jsval) list"

text \<open>\<open>String(value)\<close>.\<close>

fun String_js :: "('n \<Rightarrow> string) \<Rightarrow> 'n jsval \<Rightarrow> string" where
  "String_js ns JUndefined = ''undefined''"
| "String_js ns JNull = ''null''"
| "String_js ns (JBool b) = (if b then ''true'' else ''false'')"
| "String_js ns (JNum n) = ns n"
| "String_js ns (JStr s) = s"
| "String_js ns (JObj es) = ''[object Object]''"

text \<open>\<open>s.startsWith(p)\<close>, \<open>s.endsWith(p)\<close>, \<open>s.includes(p)\<close>.\<close>

definition startsWith_js :: "string \<Rightarrow> string \<Rightarrow> bool" where
  "startsWith_js s p = (take (length p) s = p)"

definition endsWith_js :: "string \<Rightarrow> string \<Rightarrow> bool" where
  "endsWith_js s p = (length p \<le> length s \<and> drop (length s - length p) s = p)"

fun includes_js :: "string \<Rightarrow> string \<Rightarrow> bool" where
  "includes_js [] p = (p = [])"
| "includes_js (c # cs) p = (startsWith_js (c # cs) p \<or> includes_js cs p)"

text \<open>
  \<open>s.replace(pattern, replacement)\<close> with a string pattern: only the first occurrence
  of the pattern is replaced, and the replacement string is expanded by the
  substitution rules of the language (\<open>$$\<close> is a dollar sign, \<open>$&\<close> the matched text,
  \<open>$`\<close> the text before the match, \<open>$'\<close> the text after it; with a string pattern
  there are no capture groups, so every other \<open>$\<close> stays as it is).
\<close>

fun split_first :: "string \<Rightarrow> string \<Rightarrow> (string \<times> string) option" where
  "split_first pat [] = (if pat = [] then Some ([], []) else None)"
| "split_first pat (c # cs) =
     (if startsWith_js (c # cs) pat then Some ([], drop (length pat) (c # cs))
      else (case split_first pat cs of
              None \<Rightarrow> None
            | Some (bef, aft) \<Rightarrow> Some (c # bef, aft)))"

fun getSubstitution :: "string \<Rightarrow> string \<Rightarrow> string \<Rightarrow> string \<Rightarrow> string" where
  "getSubstitution matched bef aft [] = []"
| "getSubstitution matched bef aft [c] = [c]"
| "getSubstitution matched bef aft (c # d # r) =
     (if c = CHR ''$'' \<and> d = CHR ''$'' then CHR ''$'' # getSubstitution matched bef aft r
      else if c = CHR ''$'' \<and> d = CHR ''&'' then matched @ getSubstitution matched bef aft r
      else if c = CHR ''$'' \<and> d = CHR 0x60 then bef @ getSubstitution matched bef aft r
      else if c = CHR ''$'' \<and> d = CHR 0x27 then aft @ getSubstitution matched bef aft r
      else c # getSubstitution matched bef aft (d # r))"

definition replace_js :: "string \<Rightarrow> string \<Rightarrow> string \<Rightarrow> string" where
  "replace_js s pat rep =
     (case split_first pat s of
        None \<Rightarrow> s
      | Some (bef, aft) \<Rightarrow> bef @ getSubstitution pat bef aft rep @ aft)"

text \<open>
  \<open>URLSearchParams\<close>: \<open>append\<close> adds a pair at the end of the list, \<open>toString\<close> is the
  \<open>application/x-www-form-urlencoded\<close> serializer: every byte of a name or value that
  is not an ASCII letter, a digit or one of \<open>* - . _\<close> is written \<open>%XX\<close> in upper-case
  hexadecimal, except the space, written \<open>+\<close>; name and value are joined by \<open>=\<close> and
  the pairs by \<open>&\<close>.
\<close>

definition urlencoded_safe :: "char \<Rightarrow> bool" where
  "urlencoded_safe c =
     (let n = (of_char c :: nat) in
        (48 \<le> n \<and> n \<le> 57) \<or> (65 \<le> n \<and> n \<le> 90) \<or> (97 \<le> n \<and> n \<le> 122)
        \<or> c = CHR ''*'' \<or> c = CHR ''-'' \<or> c = CHR ''.'' \<or> c = CHR ''_'')"

definition hex_digit :: "nat \<Rightarrow> char" where
  "hex_digit d = (if d < 10 then char_of (48 + d) else char_of (55 + d))"

definition urlencode_byte :: "char \<Rightarrow> string" where
  "urlencode_byte c =
     (if urlencoded_safe c then [c]
      else if c = CHR '' '' then ''+''
      else [CHR ''%'', hex_digit ((of_char c :: nat) div 16), hex_digit ((of_char c :: nat) mod 16)])"

definition urlencode :: "string \<Rightarrow> string" where
  "urlencode s = concat (map urlencode_byte s)"

fun join_amp :: "string list \<Rightarrow> string" where
  "join_amp [] = []"
| "join_amp [p] = p"
| "join_amp (p # q # ps) = p @ ''&'' @ join_amp (q # ps)"

definition URLSearchParams_toString :: "(string \<times> string) list \<Rightarrow> string" where
  "URLSearchParams_toString ps =
     join_amp (map (\<lambda>(k, v). urlencode k @ ''='' @ urlencode v) ps)"


text \<open>\<open>s.split(sep)\<close> with a one-character separator.\<close>

fun split_js :: "string \<Rightarrow> char \<Rightarrow> string list" where
  "split_js [] sep = [[]]"
| "split_js (c # cs) sep =
     (if c = sep then [] # split_js cs sep
      else (case split_js cs sep of
              [] \<Rightarrow> [[c]]
            | x # xs \<Rightarrow> (c # x) # xs))"

text \<open>
  A plain object used as a dictionary (\<open>Record<string, T>\<close> initialised with \<open>{}\<close>):
  \<open>obj[key]\<close> and \<open>key in obj\<close> find the object's own properties and, failing that,
  the members every object inherits from \<open>Object.prototype\<close>.
\<close>

definition Object_prototype_keys :: "string list" where
  "Object_prototype_keys =
     [''constructor'', ''hasOwnProperty'', ''isPrototypeOf'', ''propertyIsEnumerable'',
      ''toLocaleString'', ''toString'', ''valueOf'', ''__proto__'',
      ''__defineGetter__'', ''__defineSetter__'', ''__lookupGetter__'', ''__lookupSetter__'']"

datatype 'v property = Own 'v | Inherited string | Missing

definition get_property :: "(string \<rightharpoonup> 'v) \<Rightarrow> string \<Rightarrow> 'v property" where
  "get_property obj key =
     (case obj key of
        Some v \<Rightarrow> Own v
      | None \<Rightarrow> if key \<in> set Object_prototype_keys then Inherited key else Missing)"

definition in_js :: "string \<Rightarrow> (string \<rightharpoonup> 'v) \<Rightarrow> bool" where
  "in_js key obj = (case get_property obj key of Missing \<Rightarrow> False | _ \<Rightarrow> True)"

section \<open>Schemas, errors and the console\<close>

text \<open>
  A Zod schema is an external collaborator: it is modelled by its verdict on a value,
  either the issues it reports or the parsed value. \<open>parse\<close> throws a \<open>ZodError\<close> on
  a failed verdict, \<open>safeParse\<close> returns the verdict as a value.
\<close>

type_synonym zod_issues = string

datatype error = Error string | ZodError zod_issues

datatype console_entry =
    ConsoleError string error
  | ConsoleWarn string
  | ConsoleWarnWith string zod_issues

type_synonym 'n schema = "'n jsval \<Rightarrow> zod_issues + 'n jsval"

definition parse :: "'n schema \<Rightarrow> 'n jsval \<Rightarrow> error + 'n jsval" where
  "parse schema v = (case schema v of Inl issues \<Rightarrow> Inl (ZodError issues) | Inr data \<Rightarrow> Inr data)"

definition safeParse :: "'n schema \<Rightarrow> 'n jsval \<Rightarrow> zod_issues + 'n jsval" where
  "safeParse schema v = schema v"

section \<open>core/types.ts: route definitions and navigation options\<close>

record 'n RouteDefinition =
  path :: string
  params :: "'n schema option"
  query :: "'n schema option"

text \<open>The \<open>options\<close> argument \<open>{ params?, query? }\<close> of the URL generators.\<close>

record 'n options =
  params :: "'n entries option"
  query :: "'n entries option"

text \<open>\<open>const { params, query } = options || {}\<close>.\<close>

definition options_params :: "'n options option \<Rightarrow> 'n entries option" where
  "options_params opts = (case opts of None \<Rightarrow> None | Some opt \<Rightarrow> options.params opt)"

definition options_query :: "'n options option \<Rightarrow> 'n entries option" where
  "options_query opts = (case opts of None \<Rightarrow> None | Some opt \<Rightarrow> options.query opt)"

text \<open>
  The two loops every URL generator of the repository repeats. The entries of an object
  are given in the order \<open>Object.entries\<close> yields them.
  \<^verbatim>\<open>Object.entries(params).reduce((path, [key, value]) => path.replace(`:${key}`, String(value)), url)\<close>
\<close>

definition replace_params :: "('n \<Rightarrow> string) \<Rightarrow> string \<Rightarrow> 'n entries \<Rightarrow> string" where
  "replace_params ns url ps =
     foldl (\<lambda>path (key, value). replace_js path (CHR '':'' # key) (String_js ns value)) url ps"

text \<open>
  \<^verbatim>\<open>Object.entries(query).forEach(([key, value]) => { if (value !== undefined) queryParams.append(key, String(value)) })\<close>
\<close>

definition append_all :: "('n \<Rightarrow> string) \<Rightarrow> 'n entries \<Rightarrow> (string \<times> string) list" where
  "append_all ns q =
     foldl (\<lambda>queryParams (key, value).
              if value \<noteq> JUndefined then queryParams @ [(key, String_js ns value)] else queryParams)
           [] q"

text \<open>\<^verbatim>\<open>const queryString = queryParams.toString(); if (queryString) url = `${url}?${queryString}`\<close>\<close>

definition add_query :: "('n \<Rightarrow> string) \<Rightarrow> string \<Rightarrow> 'n entries \<Rightarrow> string" where
  "add_query ns url q =
     (let queryString = URLSearchParams_toString (append_all ns q)
      in if queryString \<noteq> [] then url @ ''?'' @ queryString else url)"

section \<open>core/route-builder.ts\<close>

definition generateUrl :: "('n \<Rightarrow> string) \<Rightarrow> 'n RouteDefinition \<Rightarrow> 'n options option \<Rightarrow> string" where
  "generateUrl ns route opts =
     (let params = options_params opts;
          query = options_query opts;
          url = RouteDefinition.path route;
          url = (case params of Some ps \<Rightarrow> replace_params ns url ps | None \<Rightarrow> url);
          url = (case query of Some q \<Rightarrow> add_query ns url q | None \<Rightarrow> url)
      in url)"

definition validateRouteParams :: "'n RouteDefinition \<Rightarrow> 'n jsval \<Rightarrow> error + 'n jsval" where
  "validateRouteParams route candidate =
     (case RouteDefinition.params route of
        None \<Rightarrow> Inl (Error (''Route '' @ RouteDefinition.path route @ '' does not have params schema defined''))
      | Some schema \<Rightarrow> parse schema candidate)"

definition validateRouteQuery :: "'n RouteDefinition \<Rightarrow> 'n jsval \<Rightarrow> error + 'n jsval" where
  "validateRouteQuery route candidate =
     (case RouteDefinition.query route of
        None \<Rightarrow> Inl (Error (''Route '' @ RouteDefinition.path route @ '' does not have query schema defined''))
      | Some schema \<Rightarrow> parse schema candidate)"


section \<open>core/registry.ts\<close>

text \<open>The two module-level registries, \<open>routeRegistry\<close> (by name) and \<open>pathRegistry\<close> (by path).\<close>

record 'n registry =
  routeRegistry :: "string \<rightharpoonup> 'n RouteDefinition"
  pathRegistry :: "string \<rightharpoonup> 'n RouteDefinition"

definition getRouteByPath :: "'n registry \<Rightarrow> string \<Rightarrow> 'n RouteDefinition property" where
  "getRouteByPath reg p = get_property (pathRegistry reg) p"

definition getRouteByName :: "'n registry \<Rightarrow> string \<Rightarrow> 'n RouteDefinition property" where
  "getRouteByName reg name = get_property (routeRegistry reg) name"

text \<open>The argument type \<open>RouteDefinition | string\<close>.\<close>

datatype 'n route_or_path = Route "'n RouteDefinition" | Path string

definition hasParams :: "'n route_or_path \<Rightarrow> bool" where
  "hasParams route =
     (let path = (case route of Path s \<Rightarrow> s | Route r \<Rightarrow> RouteDefinition.path r)
      in includes_js path ''/:'')"

definition validateParams :: "'n RouteDefinition \<Rightarrow> 'n jsval \<Rightarrow> error + 'n jsval" where
  "validateParams route candidate =
     (case RouteDefinition.params route of
        None \<Rightarrow>
          if hasParams (Route route)
          then Inl (Error (''Route '' @ RouteDefinition.path route @ '' has parameters but no validation schema''))
          else Inr (JObj [])
      | Some schema \<Rightarrow> parse schema candidate)"

definition validateQuery :: "'n RouteDefinition \<Rightarrow> 'n jsval \<Rightarrow> error + 'n jsval" where
  "validateQuery route candidate =
     (case RouteDefinition.query route of
        None \<Rightarrow> Inr (JObj [])
      | Some schema \<Rightarrow> parse schema candidate)"

text \<open>
  \<open>generateUrl\<close> of the registry. The result is the returned string or the thrown error,
  paired with what was written to the console, in order. \<open>thrownParams\<close> and
  \<open>thrownQuery\<close> are the errors caught by the two \<open>try\<close> blocks (both are logged and
  thrown again).
\<close>

definition generateUrl_registry ::
  "('n \<Rightarrow> string) \<Rightarrow> 'n route_or_path \<Rightarrow> 'n options option \<Rightarrow> (error + string) \<times> console_entry list" where
  "generateUrl_registry ns routeOrPath opts =
     (let params = options_params opts;
          query = options_query opts;
          path = (case routeOrPath of Path s \<Rightarrow> s | Route r \<Rightarrow> RouteDefinition.path r);
          thrownParams =
            (case routeOrPath of
               Path s \<Rightarrow> None
             | Route r \<Rightarrow>
                 (case RouteDefinition.params r of
                    None \<Rightarrow> None
                  | Some _ \<Rightarrow>
                      (case params of
                         None \<Rightarrow> None
                       | Some ps \<Rightarrow> (case validateParams r (JObj ps) of Inl e \<Rightarrow> Some e | Inr _ \<Rightarrow> None))));
          thrownQuery =
            (case routeOrPath of
               Path s \<Rightarrow> None
             | Route r \<Rightarrow>
                 (case RouteDefinition.query r of
                    None \<Rightarrow> None
                  | Some _ \<Rightarrow>
                      (case query of
                         None \<Rightarrow> None
                       | Some q \<Rightarrow> (case validateQuery r (JObj q) of Inl e \<Rightarrow> Some e | Inr _ \<Rightarrow> None))))
      in case thrownParams of
           Some e \<Rightarrow> (Inl e, [ConsoleError (''Invalid params for route '' @ path @ '':'') e])
         | None \<Rightarrow>
             (case thrownQuery of
                Some e \<Rightarrow> (Inl e, [ConsoleError (''Invalid query for route '' @ path @ '':'') e])
              | None \<Rightarrow>
                  (let replaced = (case params of Some ps \<Rightarrow> replace_params ns path ps | None \<Rightarrow> path);
                       warned =
                         (case params of
                            Some ps \<Rightarrow> []
                          | None \<Rightarrow>
                              if hasParams (Path path :: 'n route_or_path)
                              then [ConsoleWarn (''Route '' @ path @ '' has parameters but none were provided'')]
                              else []);
                       url = (case query of Some q \<Rightarrow> add_query ns replaced q | None \<Rightarrow> replaced)
                   in (Inr url, warned))))"

section \<open>The deprecated generateUrl kept beside defineRoute\<close>

text \<open>
  It validates through the registry's \<open>validateParams\<close> and \<open>validateQuery\<close> with no
  \<open>try\<close> around them, so a validation error leaves the function at once.
\<close>

definition generateUrl_deprecated ::
  "('n \<Rightarrow> string) \<Rightarrow> 'n RouteDefinition \<Rightarrow> 'n options option \<Rightarrow> (error + string) \<times> console_entry list" where
  "generateUrl_deprecated ns route opts =
     (let params = options_params opts;
          query = options_query opts;
          thrownParams =
            (case RouteDefinition.params route of
               None \<Rightarrow> None
             | Some _ \<Rightarrow>
                 (case params of
                    None \<Rightarrow> None
                  | Some ps \<Rightarrow> (case validateParams route (JObj ps) of Inl e \<Rightarrow> Some e | Inr _ \<Rightarrow> None)));
          warned =
            (if \<not> (\<not> Option.is_none (RouteDefinition.params route) \<and> \<not> Option.is_none params)
                \<and> hasParams (Route route) \<and> Option.is_none params
             then [ConsoleWarn (''Route '' @ RouteDefinition.path route @ '' has parameters but none were provided.'')]
             else []);
          thrownQuery =
            (case RouteDefinition.query route of
               None \<Rightarrow> None
             | Some _ \<Rightarrow>
                 (case query of
                    None \<Rightarrow> None
                  | Some q \<Rightarrow> (case validateQuery route (JObj q) of Inl e \<Rightarrow> Some e | Inr _ \<Rightarrow> None)))
      in case thrownParams of
           Some e \<Rightarrow> (Inl e, [])
         | None \<Rightarrow>
             (case thrownQuery of
                Some e \<Rightarrow> (Inl e, warned)
              | None \<Rightarrow>
                  (let url = RouteDefinition.path route;
                       url = (case params of Some ps \<Rightarrow> replace_params ns url ps | None \<Rightarrow> url);
                       url = (case query of Some q \<Rightarrow> add_query ns url q | None \<Rightarrow> url)
                   in (Inr url, warned))))"

text \<open>
  \<open>defineRoute\<close> computes the parameter names a path declares:
  \<^verbatim>\<open>path.split('/').forEach(segment => { if (segment.startsWith(':')) expectedParams.push(segment.slice(1)) })\<close>
\<close>

definition expectedParams :: "string \<Rightarrow> string list" where
  "expectedParams p =
     map (drop 1) (filter (\<lambda>segment. startsWith_js segment '':'') (split_js p CHR ''/''))"

section \<open>components/link.tsx\<close>

text \<open>
  The \<open>Link\<close> component, as the URL it hands to the framework's link as \<open>href\<close> (or the
  error it throws) and its console output. For a string \<open>href\<close> validation errors are
  caught and logged, and not thrown again. A looked-up value that is inherited from
  \<open>Object.prototype\<close> is truthy and has no \<open>params\<close> or \<open>query\<close> property.
\<close>

record 'n LinkProps =
  href :: "'n route_or_path"
  params :: "'n entries option"
  query :: "'n entries option"

definition Link ::
  "('n \<Rightarrow> string) \<Rightarrow> 'n registry \<Rightarrow> 'n LinkProps \<Rightarrow> (error + string) \<times> console_entry list" where
  "Link ns reg props =
     (let params = LinkProps.params props;
          query = LinkProps.query props
      in case LinkProps.href props of
        Route r \<Rightarrow>
          generateUrl_registry ns (Route r) (Some \<lparr>options.params = params, options.query = query\<rparr>)
      | Path h \<Rightarrow>
          (let missingWarning =
                 (if hasParams (Path h :: 'n route_or_path) \<and> Option.is_none params
                  then [ConsoleWarn (''Route '' @ h @ '' has parameters but none were provided.'')]
                  else []);
               logged =
                 (case getRouteByPath reg h of
                    Missing \<Rightarrow> missingWarning
                  | Inherited k \<Rightarrow> missingWarning
                  | Own registeredRoute \<Rightarrow>
                      (case (case RouteDefinition.params registeredRoute of
                               None \<Rightarrow> None
                             | Some _ \<Rightarrow> (case params of None \<Rightarrow> None | Some ps \<Rightarrow> Some ps)) of
                         Some ps \<Rightarrow>
                           (case validateParams registeredRoute (JObj ps) of
                              Inl e \<Rightarrow> [ConsoleError (''Invalid params for route '' @ h @ '':'') e]
                            | Inr _ \<Rightarrow> [])
                       | None \<Rightarrow> missingWarning)
                      @ (case RouteDefinition.query registeredRoute of
                           None \<Rightarrow> []
                         | Some _ \<Rightarrow>
                             (case query of
                                None \<Rightarrow> []
                              | Some q \<Rightarrow>
                                  (case validateQuery registeredRoute (JObj q) of
                                     Inl e \<Rightarrow> [ConsoleError (''Invalid query for route '' @ h @ '':'') e]
                                   | Inr _ \<Rightarrow> []))));
               url = (case params of Some ps \<Rightarrow> replace_params ns h ps | None \<Rightarrow> h);
               url = (case query of Some q \<Rightarrow> add_query ns url q | None \<Rightarrow> url)
           in (Inr url, logged)))"

section \<open>core/route-provider.tsx\<close>

text \<open>The context value is \<open>null\<close> outside a provider.\<close>

definition useRoutes ::
  "(string \<rightharpoonup> 'n RouteDefinition) option \<Rightarrow> error + (string \<rightharpoonup> 'n RouteDefinition)" where
  "useRoutes context =
     (case context of
        None \<Rightarrow> Inl (Error ''useRoutes must be used within a RouteProvider'')
      | Some routes \<Rightarrow> Inr routes)"

definition useRoute ::
  "(string \<rightharpoonup> 'n RouteDefinition) option \<Rightarrow> string \<Rightarrow> error + 'n RouteDefinition property" where
  "useRoute context routeName =
     (case useRoutes context of
        Inl e \<Rightarrow> Inl e
      | Inr routes \<Rightarrow>
          if \<not> in_js routeName routes
          then Inl (Error (''Route '' @ [CHR 0x22] @ routeName @ [CHR 0x22] @ '' not found''))
          else Inr (get_property routes routeName))"


section \<open>routerParser.ts\<close>

record 'n RouteConfig =
  path :: string
  paramsSchema :: "'n schema option"
  searchSchema :: "'n schema option"
  meta :: "'n jsval option"

record 'n RouteNode =
  node_id :: string
  path :: string
  paramsSchema :: "'n schema option"
  searchSchema :: "'n schema option"
  meta :: "'n jsval option"
  original :: "'n RouteConfig"

definition buildRouteTree :: "'n RouteConfig list \<Rightarrow> 'n RouteNode list" where
  "buildRouteTree routes =
     map (\<lambda>route. \<lparr> node_id = RouteConfig.path route,
                     RouteNode.path = RouteConfig.path route,
                     RouteNode.paramsSchema = RouteConfig.paramsSchema route,
                     RouteNode.searchSchema = RouteConfig.searchSchema route,
                     RouteNode.meta = RouteConfig.meta route,
                     original = route \<rparr>) routes"

text \<open>
  The functions \<open>createRouter(routesConfig)\<close> returns close over
  \<open>routeNodes = buildRouteTree(routesConfig)\<close>; here they take \<open>routesConfig\<close> as an
  argument.

  The hooks begin with \<open>const router = nextRouterHook()\<close>, the framework's \<open>useRouter\<close>.
  It is an external collaborator, modelled by the outcome of the call: the error it
  throws (as it does when no router is mounted), or the router it returns, of which the
  hooks read \<open>router.query\<close>.
\<close>

record 'n NextRouter =
  query :: "'n jsval"

definition getPath ::
  "('n \<Rightarrow> string) \<Rightarrow> string \<Rightarrow> 'n entries option \<Rightarrow> 'n entries option \<Rightarrow> string" where
  "getPath ns p ps search =
     (let populatedPath = p;
          populatedPath = (case ps of Some es \<Rightarrow> replace_params ns populatedPath es | None \<Rightarrow> populatedPath);
          populatedPath = (case search of Some q \<Rightarrow> add_query ns populatedPath q | None \<Rightarrow> populatedPath)
      in populatedPath)"

definition getRoute :: "'n RouteConfig list \<Rightarrow> string \<Rightarrow> 'n RouteNode option" where
  "getRoute routesConfig p = find (\<lambda>r. RouteNode.path r = p) (buildRouteTree routesConfig)"

definition useParams ::
  "error + 'n NextRouter \<Rightarrow> 'n RouteConfig list \<Rightarrow> string
     \<Rightarrow> (error + 'n jsval) \<times> console_entry list" where
  "useParams nextRouterHook routesConfig pathForHook =
     (case nextRouterHook of
        Inl thrown \<Rightarrow> (Inl thrown, [])
      | Inr router \<Rightarrow>
          (let routeConfig = getRoute routesConfig pathForHook;
               schema = (case routeConfig of None \<Rightarrow> None | Some node \<Rightarrow> RouteNode.paramsSchema node)
           in case schema of
                None \<Rightarrow> (Inr (JObj []), [])
              | Some sch \<Rightarrow>
                  (case safeParse sch (NextRouter.query router) of
                     Inr data \<Rightarrow> (Inr data, [])
                   | Inl issues \<Rightarrow>
                       (Inr (JObj []),
                        [ConsoleWarnWith
                           (''[TypeSafeRouter] useParams for path '' @ [CHR 0x22] @ pathForHook
                              @ [CHR 0x22] @ '' failed to parse params:'')
                           issues]))))"

definition useSearch ::
  "error + 'n NextRouter \<Rightarrow> 'n RouteConfig list \<Rightarrow> string
     \<Rightarrow> (error + 'n jsval) \<times> console_entry list" where
  "useSearch nextRouterHook routesConfig pathForHook =
     (case nextRouterHook of
        Inl thrown \<Rightarrow> (Inl thrown, [])
      | Inr router \<Rightarrow>
          (let routeConfig = getRoute routesConfig pathForHook;
               schema = (case routeConfig of None \<Rightarrow> None | Some node \<Rightarrow> RouteNode.searchSchema node)
           in case schema of
                None \<Rightarrow> (Inr (JObj []), [])
              | Some sch \<Rightarrow>
                  (case safeParse sch (NextRouter.query router) of
                     Inr data \<Rightarrow> (Inr data, [])
                   | Inl issues \<Rightarrow> (Inr (JObj []), []))))"

definition getDynamicPath :: "('n \<Rightarrow> string) \<Rightarrow> string \<Rightarrow> 'n entries option \<Rightarrow> string" where
  "getDynamicPath ns p ps =
     (let result = p in case ps of Some es \<Rightarrow> replace_params ns result es | None \<Rightarrow> result)"

definition getDynamicRoute :: "string \<Rightarrow> 'n RouteConfig option \<times> console_entry list" where
  "getDynamicRoute p =
     (None,
      [ConsoleWarn
         ''[TypeSafeRouter] getDynamicRoute is a simplified stub and might not find all routes correctly.''])"

section \<open>hooks/use-pathname.ts\<close>

text \<open>
  The framework's \<open>usePathname\<close> yields a string or \<open>null\<close>. For \<open>null\<close> the optional
  call \<open>pathname?.endsWith('/')\<close> is \<open>undefined\<close>, so the template literal is taken and
  renders \<open>null\<close> as text.
\<close>

definition startsWith :: "string option \<Rightarrow> 'n RouteDefinition \<Rightarrow> bool" where
  "startsWith pathname route =
     (let routePath =
            (if endsWith_js (RouteDefinition.path route) ''/''
             then RouteDefinition.path route
             else RouteDefinition.path route @ ''/'');
          currentPath =
            (case pathname of
               Some p \<Rightarrow> if endsWith_js p ''/'' then p else p @ ''/''
             | None \<Rightarrow> ''null'' @ ''/'')
      in startsWith_js currentPath routePath)"

definition equals :: "string option \<Rightarrow> 'n RouteDefinition \<Rightarrow> bool" where
  "equals pathname route = (pathname = Some (RouteDefinition.path route))"

text \<open>
  Two notions in which the segment-boundary property of \<open>startsWith\<close> is phrased: a
  path with one slash added at its end unless it has one already (the two conditional
  expressions of \<open>startsWith\<close>), and the segments of a path, the pieces between the
  slashes of that normal form.
\<close>

definition with_trailing_slash :: "string \<Rightarrow> string" where
  "with_trailing_slash s = (if endsWith_js s ''/'' then s else s @ ''/'')"

definition path_segments :: "string \<Rightarrow> string list" where
  "path_segments s = butlast (split_js (with_trailing_slash s) CHR ''/'')"

section \<open>A number rendering for the examples\<close>

text \<open>
  The examples below instantiate the numbers with the natural numbers, rendered in
  decimal, as \<open>Number::toString\<close> renders a non-negative integer below \<open>10^21\<close>.
\<close>

fun decimal :: "nat \<Rightarrow> string" where
  "decimal n =
     (if n < 10 then [char_of (48 + n)] else decimal (n div 10) @ [char_of (48 + n mod 10)])"

text \<open>
  A schema for the examples: it accepts an object whose only entry is \<open>id\<close> with a
  non-empty string of decimal digits, and reports an issue for everything else.
\<close>

fun id_schema :: "nat jsval \<Rightarrow> zod_issues + nat jsval" where
  "id_schema (JObj [(k, JStr s)]) =
     (if k = ''id'' \<and> s \<noteq> [] \<and> list_all (\<lambda>c. c \<in> set ''0123456789'') s
      then Inr (JObj [(k, JStr s)])
      else Inl ''id: expected a numeric string'')"
| "id_schema v = Inl ''expected an object with the key id''"

section \<open>Parameter substitution\<close>

text \<open>
  Claim C1. Substitution is meant to replace the token \<open>:name\<close> of each parameter and
  nothing else, whatever the order of the segments and of the entries. The code replaces
  the first occurrence of the text \<open>:name\<close>: for the template \<open>/:identifier/:id\<close> and
  the parameters \<open>{id: "1", identifier: "x"}\<close> the value of \<open>id\<close> lands inside the
  \<open>:identifier\<close> segment, in \<open>generateUrl\<close> of the route builder and in \<open>getPath\<close> of the
  router alike, and the result is \<open>/1entifier/:id\<close> instead of \<open>/x/1\<close>.
\<close>

theorem C1_substitution_hits_longer_name:
  "generateUrl decimal
     \<lparr>RouteDefinition.path = ''/:identifier/:id'', params = None, query = None\<rparr>
     (Some \<lparr>options.params = Some [(''id'', JStr ''1''), (''identifier'', JStr ''x'')],
            query = None\<rparr>)
   = ''/1entifier/:id''
   \<and> getPath decimal ''/:identifier/:id''
       (Some [(''id'', JStr ''1''), (''identifier'', JStr ''x'')]) None
   = ''/1entifier/:id''"
  by code_simp

text \<open>
  Claim C2. When the parameters cover every name the template declares and the query is
  empty, the generated URL should contain none of the declared \<open>:name\<close> tokens. The
  registry's \<open>generateUrl\<close> receives values for both declared names of
  \<open>/:identifier/:id\<close> and returns \<open>/1entifier/:id\<close>, whose last segment is still the
  token \<open>:id\<close>.
\<close>

theorem C2_declared_token_left_in_url:
  "expectedParams ''/:identifier/:id'' = [''identifier'', ''id'']
   \<and> generateUrl_registry decimal
       (Route \<lparr>RouteDefinition.path = ''/:identifier/:id'', params = None, query = None\<rparr>)
       (Some \<lparr>options.params = Some [(''id'', JStr ''1''), (''identifier'', JStr ''x'')],
              query = Some []\<rparr>)
     = (Inr ''/1entifier/:id'', [])
   \<and> split_js ''/1entifier/:id'' CHR ''/'' = ['''', ''1entifier'', '':id'']"
  by code_simp

section \<open>Validation\<close>

text \<open>
  Claim C3 as stated (a route without a params schema hands the candidate back
  unchanged and never throws) fails: for \<open>/about\<close> the validated value is the empty
  object, not the candidate, and for \<open>/user/:id\<close> validation throws.
\<close>

theorem C3_candidate_not_passed_through:
  "validateParams \<lparr>RouteDefinition.path = ''/about'', params = None, query = None\<rparr>
       (JObj [(''tab'', JStr ''x'')] :: nat jsval)
     \<noteq> Inr (JObj [(''tab'', JStr ''x'')])
   \<and> validateParams \<lparr>RouteDefinition.path = ''/user/:id'', params = None, query = None\<rparr>
       (JObj [(''id'', JStr ''1'')] :: nat jsval)
     = Inl (Error ''Route /user/:id has parameters but no validation schema'')"
  by code_simp

text \<open>
  Claim C3, amended. For a route without a params schema the registry's
  \<open>validateParams\<close> ignores the candidate: it returns the empty object when the path has
  no dynamic segment and throws when it has one; \<open>validateRouteParams\<close> of the route
  builder throws for every such route. For a route without a query schema
  \<open>validateQuery\<close> returns the empty object, whatever the candidate.
\<close>

theorem C3_validation_without_schema:
  "(RouteDefinition.params route = None \<longrightarrow>
      validateParams route candidate =
        (if hasParams (Route route)
         then Inl (Error (''Route '' @ RouteDefinition.path route
                            @ '' has parameters but no validation schema''))
         else Inr (JObj []))
      \<and> validateRouteParams route candidate =
          Inl (Error (''Route '' @ RouteDefinition.path route
                        @ '' does not have params schema defined'')))
   \<and> (RouteDefinition.query route = None \<longrightarrow> validateQuery route candidate = Inr (JObj []))"
  by (simp add: validateParams_def validateRouteParams_def validateQuery_def)

theorem C3_validation_without_schema_witness:
  "validateParams \<lparr>RouteDefinition.path = ''/about'', params = None, query = None\<rparr>
       (JObj [(''tab'', JNum 2)] :: nat jsval) = Inr (JObj [])
   \<and> validateRouteParams \<lparr>RouteDefinition.path = ''/about'', params = None, query = None\<rparr>
       (JObj [(''tab'', JNum 2)] :: nat jsval)
     = Inl (Error ''Route /about does not have params schema defined'')
   \<and> validateQuery \<lparr>RouteDefinition.path = ''/about'', params = None, query = None\<rparr>
       (JObj [(''tab'', JNum 2)] :: nat jsval) = Inr (JObj [])"
  using C3_validation_without_schema
          [of "\<lparr>RouteDefinition.path = ''/about'', params = None, query = None\<rparr>"
              "JObj [(''tab'', JNum 2)] :: nat jsval"]
  by (simp add: hasParams_def startsWith_js_def)

text \<open>
  Claim C4 as stated (a failed validation is reported and a URL is still produced)
  fails for the registry's \<open>generateUrl\<close>: with a params schema that rejects
  \<open>{id: "abc"}\<close> it logs the error and throws it again, and no URL is returned.
\<close>

theorem C4_generateUrl_rethrows:
  "generateUrl_registry decimal
     (Route \<lparr>RouteDefinition.path = ''/user/:id'', params = Some id_schema, query = None\<rparr>)
     (Some \<lparr>options.params = Some [(''id'', JStr ''abc'')], query = None\<rparr>)
   = (Inl (ZodError ''id: expected a numeric string''),
      [ConsoleError ''Invalid params for route /user/:id:''
         (ZodError ''id: expected a numeric string'')])"
  by code_simp

text \<open>
  Claim C4, amended. When the supplied params fail the route's params schema, the
  registry's \<open>generateUrl\<close> logs \<open>Invalid params for route <path>:\<close> with the error and
  throws the error; the deprecated \<open>generateUrl\<close> throws it without logging. When the
  supplied query fails the query schema of a route without a params schema, the registry's
  \<open>generateUrl\<close> logs \<open>Invalid query for route <path>:\<close> and throws. The \<open>Link\<close>
  component with a string \<open>href\<close> never throws: its URL is built from the raw values
  (the URL \<open>getPath\<close> builds), and when the path is registered and the params or the
  query fail the route's schema the error is logged.
\<close>

theorem C4_validation_failure_policy:
  "(RouteDefinition.params route = Some sch \<and> options_params opts = Some ps
      \<and> sch (JObj ps) = Inl issues \<longrightarrow>
      generateUrl_registry ns (Route route) opts =
        (Inl (ZodError issues),
         [ConsoleError (''Invalid params for route '' @ RouteDefinition.path route @ '':'')
            (ZodError issues)])
      \<and> generateUrl_deprecated ns route opts = (Inl (ZodError issues), []))
   \<and> (RouteDefinition.params route = None \<and> RouteDefinition.query route = Some sch
        \<and> options_query opts = Some qs \<and> sch (JObj qs) = Inl issues \<longrightarrow>
      generateUrl_registry ns (Route route) opts =
        (Inl (ZodError issues),
         [ConsoleError (''Invalid query for route '' @ RouteDefinition.path route @ '':'')
            (ZodError issues)]))
   \<and> fst (Link ns reg \<lparr>href = Path h, params = lps, query = lq\<rparr>) = Inr (getPath ns h lps lq)
   \<and> (pathRegistry reg h = Some route \<and> RouteDefinition.params route = Some sch
        \<and> lps = Some ps \<and> sch (JObj ps) = Inl issues \<longrightarrow>
      ConsoleError (''Invalid params for route '' @ h @ '':'') (ZodError issues)
        \<in> set (snd (Link ns reg \<lparr>href = Path h, params = lps, query = lq\<rparr>)))
   \<and> (pathRegistry reg h = Some route \<and> RouteDefinition.query route = Some sch
        \<and> lq = Some qs \<and> sch (JObj qs) = Inl issues \<longrightarrow>
      ConsoleError (''Invalid query for route '' @ h @ '':'') (ZodError issues)
        \<in> set (snd (Link ns reg \<lparr>href = Path h, params = lps, query = lq\<rparr>)))"
  by (auto simp add: generateUrl_registry_def generateUrl_deprecated_def validateParams_def
        validateQuery_def parse_def Link_def getPath_def getRouteByPath_def get_property_def Let_def
        split: option.splits sum.splits)

theorem C4_validation_failure_policy_witness:
  "generateUrl_registry decimal
     (Route \<lparr>RouteDefinition.path = ''/user/:id'', params = Some id_schema, query = None\<rparr>)
     (Some \<lparr>options.params = Some [(''id'', JStr ''x1'')], query = None\<rparr>)
   = (Inl (ZodError ''id: expected a numeric string''),
      [ConsoleError ''Invalid params for route /user/:id:''
         (ZodError ''id: expected a numeric string'')])
   \<and> generateUrl_registry decimal
     (Route \<lparr>RouteDefinition.path = ''/items'', params = None, query = Some id_schema\<rparr>)
     (Some \<lparr>options.params = None, query = Some [(''id'', JStr ''x1'')]\<rparr>)
   = (Inl (ZodError ''id: expected a numeric string''),
      [ConsoleError ''Invalid query for route /items:''
         (ZodError ''id: expected a numeric string'')])
   \<and> fst (Link decimal
        \<lparr>routeRegistry = Map.empty,
         pathRegistry = [''/user/:id'' \<mapsto>
           \<lparr>RouteDefinition.path = ''/user/:id'', params = Some id_schema, query = None\<rparr>]\<rparr>
        \<lparr>href = Path ''/user/:id'', params = Some [(''id'', JStr ''x1'')], query = None\<rparr>)
     = Inr ''/user/x1''
   \<and> ConsoleError ''Invalid params for route /user/:id:''
         (ZodError ''id: expected a numeric string'')
       \<in> set (snd (Link decimal
        \<lparr>routeRegistry = Map.empty,
         pathRegistry = [''/user/:id'' \<mapsto>
           \<lparr>RouteDefinition.path = ''/user/:id'', params = Some id_schema, query = None\<rparr>]\<rparr>
        \<lparr>href = Path ''/user/:id'', params = Some [(''id'', JStr ''x1'')], query = None\<rparr>))"
proof -
  let ?r = "\<lparr>RouteDefinition.path = ''/user/:id'', params = Some id_schema, query = None\<rparr>"
  let ?r2 = "\<lparr>RouteDefinition.path = ''/items'', params = None, query = Some id_schema\<rparr>"
  let ?ps = "[(''id'', JStr ''x1'')] :: nat entries"
  let ?opts = "Some \<lparr>options.params = Some ?ps, query = None\<rparr>"
  let ?opts2 = "Some \<lparr>options.params = None, query = Some ?ps\<rparr>"
  let ?reg = "\<lparr>routeRegistry = Map.empty, pathRegistry = [''/user/:id'' \<mapsto> ?r]\<rparr>"
  have bad: "id_schema (JObj ?ps) = Inl ''id: expected a numeric string''"
    by simp
  have gp: "getPath decimal ''/user/:id'' (Some ?ps) None = ''/user/x1''"
    by (simp add: getPath_def replace_params_def replace_js_def startsWith_js_def)
  have first: "generateUrl_registry decimal (Route ?r) ?opts
      = (Inl (ZodError ''id: expected a numeric string''),
         [ConsoleError ''Invalid params for route /user/:id:''
            (ZodError ''id: expected a numeric string'')])
    \<and> fst (Link decimal ?reg \<lparr>href = Path ''/user/:id'', params = Some ?ps, query = None\<rparr>)
      = Inr ''/user/x1''
    \<and> ConsoleError ''Invalid params for route /user/:id:''
          (ZodError ''id: expected a numeric string'')
        \<in> set (snd (Link decimal ?reg
                       \<lparr>href = Path ''/user/:id'', params = Some ?ps, query = None\<rparr>))"
    using C4_validation_failure_policy
            [of ?r id_schema ?opts ?ps "''id: expected a numeric string''" decimal
                "[]" ?reg "''/user/:id''" "Some ?ps" None] bad gp
    by (simp add: options_params_def)
  have second: "generateUrl_registry decimal (Route ?r2) ?opts2
      = (Inl (ZodError ''id: expected a numeric string''),
         [ConsoleError ''Invalid query for route /items:''
            (ZodError ''id: expected a numeric string'')])"
    using C4_validation_failure_policy
            [of ?r2 id_schema ?opts2 "[]" "''id: expected a numeric string''" decimal
                ?ps ?reg "''/items''" None None] bad
    by (simp add: options_query_def)
  from first second show ?thesis by simp
qed

section \<open>Missing parameter values\<close>




section \<open>Lookups\<close>

lemma getRoute_no_match:
  "(\<forall>c\<in>set routesConfig. RouteConfig.path c \<noteq> p) \<Longrightarrow> getRoute routesConfig p = None"
  by (simp add: getRoute_def buildRouteTree_def find_None_iff)

text \<open>
  Claim C7 as stated (a lookup that matches no route yields \<open>undefined\<close> and never an
  exception) fails for the \<open>useRoute\<close> hook, the lookup by name in the routes of the
  provider: for a name that is not there it throws.
\<close>

theorem C7_useRoute_throws:
  "useRoute (Some (Map.empty :: string \<rightharpoonup> nat RouteDefinition)) ''home''
     = Inl (Error (''Route '' @ [CHR 0x22] @ ''home'' @ [CHR 0x22] @ '' not found''))"
  by (simp add: useRoute_def useRoutes_def in_js_def get_property_def Object_prototype_keys_def)

text \<open>
  Claim C7, amended. For a key that is neither registered nor the name of a member
  inherited from \<open>Object.prototype\<close>, \<open>getRouteByPath\<close> and \<open>getRouteByName\<close> return
  \<open>undefined\<close>; \<open>getRoute\<close> of the router instance returns \<open>undefined\<close> for a path that
  no configured route has, and \<open>getDynamicRoute\<close> always does. The \<open>useRoute\<close> hook
  throws \<open>Route "<name>" not found\<close> for such a name.
\<close>

theorem C7_lookup_of_unregistered:
  fixes reg :: "'n registry" and routesConfig :: "'n RouteConfig list"
    and routes :: "string \<rightharpoonup> 'n RouteDefinition"
  shows
  "(pathRegistry reg p = None \<and> p \<notin> set Object_prototype_keys \<longrightarrow> getRouteByPath reg p = Missing)
   \<and> (routeRegistry reg name = None \<and> name \<notin> set Object_prototype_keys \<longrightarrow>
        getRouteByName reg name = Missing)
   \<and> ((\<forall>c\<in>set routesConfig. RouteConfig.path c \<noteq> p) \<longrightarrow> getRoute routesConfig p = None)
   \<and> fst (getDynamicRoute p :: 'n RouteConfig option \<times> console_entry list) = None
   \<and> (routes name = None \<and> name \<notin> set Object_prototype_keys \<longrightarrow>
        useRoute (Some routes) name
          = Inl (Error (''Route '' @ [CHR 0x22] @ name @ [CHR 0x22] @ '' not found'')))"
  by (simp add: getRouteByPath_def getRouteByName_def get_property_def getRoute_no_match
        getDynamicRoute_def useRoute_def useRoutes_def in_js_def)

theorem C7_lookup_of_unregistered_witness:
  "getRouteByPath
      \<lparr>routeRegistry = [''about'' \<mapsto> \<lparr>RouteDefinition.path = ''/about'', params = None, query = None\<rparr>],
       pathRegistry = [''/about'' \<mapsto> \<lparr>RouteDefinition.path = ''/about'', params = None :: nat schema option, query = None\<rparr>]\<rparr>
      ''/blog'' = Missing
   \<and> getRouteByName
      \<lparr>routeRegistry = [''about'' \<mapsto> \<lparr>RouteDefinition.path = ''/about'', params = None, query = None\<rparr>],
       pathRegistry = [''/about'' \<mapsto> \<lparr>RouteDefinition.path = ''/about'', params = None :: nat schema option, query = None\<rparr>]\<rparr>
      ''blog'' = Missing
   \<and> getRoute [\<lparr>RouteConfig.path = ''/about'', paramsSchema = None :: nat schema option,
                  searchSchema = None, meta = None\<rparr>] ''/blog'' = None
   \<and> useRoute (Some [''about'' \<mapsto> \<lparr>RouteDefinition.path = ''/about'', params = None :: nat schema option, query = None\<rparr>])
        ''blog'' = Inl (Error (''Route '' @ [CHR 0x22] @ ''blog'' @ [CHR 0x22] @ '' not found''))"
proof -
  let ?r = "\<lparr>RouteDefinition.path = ''/about'', params = None :: nat schema option, query = None\<rparr>"
  let ?reg = "\<lparr>routeRegistry = [''about'' \<mapsto> ?r], pathRegistry = [''/about'' \<mapsto> ?r]\<rparr>"
  let ?cfg = "[\<lparr>RouteConfig.path = ''/about'', paramsSchema = None :: nat schema option,
                  searchSchema = None, meta = None\<rparr>]"
  have a: "getRouteByPath ?reg ''/blog'' = Missing
     \<and> getRoute ?cfg ''/blog'' = None"
    using C7_lookup_of_unregistered [of ?reg "''/blog''" "''blog''" ?cfg "[''about'' \<mapsto> ?r]"]
    by (simp add: Object_prototype_keys_def)
  have b: "getRouteByName ?reg ''blog'' = Missing
     \<and> useRoute (Some [''about'' \<mapsto> ?r]) ''blog''
        = Inl (Error (''Route '' @ [CHR 0x22] @ ''blog'' @ [CHR 0x22] @ '' not found''))"
    using C7_lookup_of_unregistered [of ?reg "''/blog''" "''blog''" ?cfg "[''about'' \<mapsto> ?r]"]
    by (simp add: Object_prototype_keys_def)
  from a b show ?thesis by simp
qed

section \<open>The hooks of the router instance\<close>

text \<open>
  Claim C9 as stated (the hooks never throw, for every path argument) fails: both call
  the framework's \<open>useRouter\<close> first and do not guard the call, so when that hook throws,
  as it does with no router mounted, \<open>useParams\<close> and \<open>useSearch\<close> throw the same error.
\<close>

theorem C9_hooks_propagate_router_error:
  "useParams (Inl (Error ''NextRouter was not mounted'') :: error + nat NextRouter)
      [\<lparr>RouteConfig.path = ''/u/:id'', paramsSchema = Some id_schema,
        searchSchema = Some id_schema, meta = None\<rparr>]
      ''/u/:id''
    = (Inl (Error ''NextRouter was not mounted''), [])
   \<and> useSearch (Inl (Error ''NextRouter was not mounted'') :: error + nat NextRouter)
      [\<lparr>RouteConfig.path = ''/u/:id'', paramsSchema = Some id_schema,
        searchSchema = Some id_schema, meta = None\<rparr>]
      ''/u/:id''
    = (Inl (Error ''NextRouter was not mounted''), [])"
  by (simp add: useParams_def useSearch_def)

text \<open>
  Claim C9, amended. When the framework's \<open>useRouter\<close> throws, \<open>useParams\<close> and
  \<open>useSearch\<close> throw its error and log nothing. When it returns a router, they return a
  value: the empty object when no configured route has the path or the route has no
  schema, and the empty object too when the schema rejects the router's query, a case in
  which \<open>parse\<close> would have thrown; \<open>useParams\<close> then logs a warning and \<open>useSearch\<close>
  logs nothing.
\<close>

theorem C9_hooks_return_empty_object:
  "(nextRouterHook = Inl thrown \<longrightarrow>
      useParams nextRouterHook routesConfig p = (Inl thrown, [])
      \<and> useSearch nextRouterHook routesConfig p = (Inl thrown, []))
   \<and> (nextRouterHook = Inr router \<longrightarrow>
      (\<exists>v. fst (useParams nextRouterHook routesConfig p) = Inr v)
      \<and> (\<exists>v. fst (useSearch nextRouterHook routesConfig p) = Inr v)
      \<and> ((\<forall>c\<in>set routesConfig. RouteConfig.path c \<noteq> p) \<longrightarrow>
           useParams nextRouterHook routesConfig p = (Inr (JObj []), [])
           \<and> useSearch nextRouterHook routesConfig p = (Inr (JObj []), []))
      \<and> (getRoute routesConfig p = Some node \<and> RouteNode.paramsSchema node = None \<longrightarrow>
           useParams nextRouterHook routesConfig p = (Inr (JObj []), []))
      \<and> (getRoute routesConfig p = Some node \<and> RouteNode.searchSchema node = None \<longrightarrow>
           useSearch nextRouterHook routesConfig p = (Inr (JObj []), []))
      \<and> (getRoute routesConfig p = Some node \<and> RouteNode.paramsSchema node = Some sch
           \<and> sch (NextRouter.query router) = Inl issues \<longrightarrow>
           parse sch (NextRouter.query router) = Inl (ZodError issues)
           \<and> useParams nextRouterHook routesConfig p =
               (Inr (JObj []),
                [ConsoleWarnWith
                   (''[TypeSafeRouter] useParams for path '' @ [CHR 0x22] @ p @ [CHR 0x22]
                      @ '' failed to parse params:'')
                   issues]))
      \<and> (getRoute routesConfig p = Some node \<and> RouteNode.searchSchema node = Some sch
           \<and> sch (NextRouter.query router) = Inl issues \<longrightarrow>
           parse sch (NextRouter.query router) = Inl (ZodError issues)
           \<and> useSearch nextRouterHook routesConfig p = (Inr (JObj []), [])))"
  by (auto simp add: useParams_def useSearch_def safeParse_def parse_def getRoute_no_match Let_def
        split: option.splits sum.splits)

theorem C9_hooks_return_empty_object_witness:
  "useParams (Inr \<lparr>NextRouter.query = JObj [(''id'', JStr ''x'')]\<rparr>)
      [\<lparr>RouteConfig.path = ''/u/:id'', paramsSchema = Some id_schema,
        searchSchema = Some id_schema, meta = None\<rparr>]
      ''/u/:id''
    = (Inr (JObj []),
       [ConsoleWarnWith
          (''[TypeSafeRouter] useParams for path '' @ [CHR 0x22] @ ''/u/:id'' @ [CHR 0x22]
             @ '' failed to parse params:'')
          ''id: expected a numeric string''])
   \<and> useSearch (Inr \<lparr>NextRouter.query = JObj [(''id'', JStr ''x'')]\<rparr>)
      [\<lparr>RouteConfig.path = ''/u/:id'', paramsSchema = Some id_schema,
        searchSchema = Some id_schema, meta = None\<rparr>]
      ''/u/:id''
    = (Inr (JObj []), [])
   \<and> useParams (Inr \<lparr>NextRouter.query = JObj [(''id'', JStr ''x'')]\<rparr>)
      [\<lparr>RouteConfig.path = ''/u/:id'', paramsSchema = Some id_schema,
        searchSchema = Some id_schema, meta = None\<rparr>]
      ''/nowhere''
    = (Inr (JObj []), [])
   \<and> useParams (Inl (Error ''NextRouter was not mounted'') :: error + nat NextRouter)
      [\<lparr>RouteConfig.path = ''/u/:id'', paramsSchema = Some id_schema,
        searchSchema = Some id_schema, meta = None\<rparr>]
      ''/nowhere''
    = (Inl (Error ''NextRouter was not mounted''), [])"
proof -
  let ?c = "\<lparr>RouteConfig.path = ''/u/:id'', paramsSchema = Some id_schema,
             searchSchema = Some id_schema, meta = None\<rparr>"
  let ?node = "\<lparr>node_id = ''/u/:id'', RouteNode.path = ''/u/:id'',
                RouteNode.paramsSchema = Some id_schema, RouteNode.searchSchema = Some id_schema,
                RouteNode.meta = None, original = ?c\<rparr>"
  let ?router = "\<lparr>NextRouter.query = JObj [(''id'', JStr ''x'')] :: nat jsval\<rparr>"
  let ?e = "Error ''NextRouter was not mounted''"
  have g: "getRoute [?c] ''/u/:id'' = Some ?node"
    by (simp add: getRoute_def buildRouteTree_def)
  have bad: "id_schema (NextRouter.query ?router) = Inl ''id: expected a numeric string''"
    by simp
  have a: "useParams (Inr ?router) [?c] ''/u/:id''
             = (Inr (JObj []),
                [ConsoleWarnWith
                   (''[TypeSafeRouter] useParams for path '' @ [CHR 0x22] @ ''/u/:id'' @ [CHR 0x22]
                      @ '' failed to parse params:'')
                   ''id: expected a numeric string''])
           \<and> useSearch (Inr ?router) [?c] ''/u/:id'' = (Inr (JObj []), [])"
    using C9_hooks_return_empty_object
            [of "Inr ?router" ?e "[?c]" "''/u/:id''" ?router ?node id_schema
                "''id: expected a numeric string''"] g bad
    by simp
  have b: "useParams (Inr ?router) [?c] ''/nowhere'' = (Inr (JObj []), [])"
    using C9_hooks_return_empty_object
            [of "Inr ?router" ?e "[?c]" "''/nowhere''" ?router ?node id_schema
                "''id: expected a numeric string''"]
    by simp
  have c: "useParams (Inl ?e :: error + nat NextRouter) [?c] ''/nowhere'' = (Inl ?e, [])"
    using C9_hooks_return_empty_object
            [of "Inl ?e :: error + nat NextRouter" ?e "[?c]" "''/nowhere''" ?router ?node id_schema
                "''id: expected a numeric string''"]
    by simp
  from a b c show ?thesis by simp
qed

section \<open>Query strings\<close>

lemma append_all_acc:
  "foldl (\<lambda>queryParams (key, value).
            if value \<noteq> JUndefined then queryParams @ [(key, String_js ns value)] else queryParams)
         acc q
   = acc @ map (\<lambda>(k, v). (k, String_js ns v)) (filter (\<lambda>(k, v). v \<noteq> JUndefined) q)"
  by (induction q arbitrary: acc) (auto split: prod.splits)

lemma append_all_present:
  "append_all ns q = map (\<lambda>(k, v). (k, String_js ns v)) (filter (\<lambda>(k, v). v \<noteq> JUndefined) q)"
  by (simp add: append_all_def append_all_acc)

lemma toString_present:
  "URLSearchParams_toString (append_all ns q)
     = join_amp (map (\<lambda>(k, v). urlencode k @ ''='' @ urlencode (String_js ns v))
                     (filter (\<lambda>(k, v). v \<noteq> JUndefined) q))"
  by (simp add: URLSearchParams_toString_def append_all_present comp_def split_def)

lemma join_amp_nonempty:
  "xs \<noteq> [] \<Longrightarrow> [] \<notin> set xs \<Longrightarrow> join_amp xs \<noteq> []"
  by (induction xs rule: join_amp.induct) auto

lemma join_amp_avoids:
  "c \<noteq> CHR ''&'' \<Longrightarrow> \<forall>x\<in>set xs. c \<notin> set x \<Longrightarrow> c \<notin> set (join_amp xs)"
  by (induction xs rule: join_amp.induct) auto

lemma of_char_less_256: "(of_char c :: nat) < 256"
proof -
  have "(of_char c :: nat) mod 256 < 256" by simp
  then show ?thesis by (simp only: of_char_mod_256)
qed

lemma hex_digit_not_qmark: "d < 16 \<Longrightarrow> hex_digit d \<noteq> CHR ''?''"
proof
  assume d: "d < 16" and eq: "hex_digit d = CHR ''?''"
  then have "(of_char (hex_digit d) :: nat) = of_char (CHR ''?'')" by simp
  with d show False
    by (simp add: hex_digit_def split: if_splits)
qed

lemma urlencode_byte_no_qmark: "CHR ''?'' \<notin> set (urlencode_byte c)"
proof -
  have hi: "(of_char c :: nat) div 16 < 16"
    using of_char_less_256 [of c] by arith
  have lo: "(of_char c :: nat) mod 16 < 16" by simp
  have unsafe: "\<not> urlencoded_safe (CHR ''?'')"
    by (simp add: urlencoded_safe_def)
  show ?thesis
    using hex_digit_not_qmark [OF hi] hex_digit_not_qmark [OF lo] unsafe
    by (auto simp add: urlencode_byte_def)
qed

lemma urlencode_no_qmark: "CHR ''?'' \<notin> set (urlencode s)"
  by (simp add: urlencode_def urlencode_byte_no_qmark)

lemma queryString_no_qmark:
  "CHR ''?'' \<notin> set (join_amp (map (\<lambda>(k, v). urlencode k @ ''='' @ urlencode (String_js ns v)) ps))"
  by (rule join_amp_avoids) (auto simp add: urlencode_no_qmark)

lemma queryString_empty_iff:
  "join_amp (map (\<lambda>(k, v). urlencode k @ ''='' @ urlencode (String_js ns v)) ps) = [] \<longleftrightarrow> ps = []"
proof
  assume empty: "join_amp (map (\<lambda>(k, v). urlencode k @ ''='' @ urlencode (String_js ns v)) ps) = []"
  have "[] \<notin> set (map (\<lambda>(k, v). urlencode k @ ''='' @ urlencode (String_js ns v)) ps)"
    by (auto simp add: split_def)
  with empty show "ps = []"
    using join_amp_nonempty [of "map (\<lambda>(k, v). urlencode k @ ''='' @ urlencode (String_js ns v)) ps"]
    by auto
qed simp

lemma add_query_eq:
  "add_query ns url q =
     (let present = filter (\<lambda>(k, v). v \<noteq> JUndefined) q;
          queryString = join_amp (map (\<lambda>(k, v). urlencode k @ ''='' @ urlencode (String_js ns v)) present)
      in if present = [] then url else url @ ''?'' @ queryString)"
  using queryString_empty_iff [of ns "filter (\<lambda>(k, v). v \<noteq> JUndefined) q"]
  by (simp add: add_query_def toString_present Let_def)

text \<open>
  Claim C6. Query-string assembly keeps exactly the entries whose value is not
  \<open>undefined\<close>, in order, each value coerced with \<open>String\<close> and each name and value
  percent-encoded; the query string is empty exactly when no entry is kept, and only
  then nothing is appended to the URL. Otherwise one \<open>?\<close> and the query string are
  appended, and the query string itself contains no \<open>?\<close>, so assembly adds exactly one
  \<open>?\<close> to the URL, or none when the query is absent or all its values are \<open>undefined\<close>.
  This is how \<open>generateUrl\<close> of the route builder and \<open>getPath\<close> of the router finish.
\<close>

theorem C6_query_string_assembly:
  "(let present = filter (\<lambda>(k, v). v \<noteq> JUndefined) q;
        queryString =
          join_amp (map (\<lambda>(k, v). urlencode k @ ''='' @ urlencode (String_js ns v)) present)
    in append_all ns q = map (\<lambda>(k, v). (k, String_js ns v)) present
       \<and> add_query ns url q = (if present = [] then url else url @ ''?'' @ queryString)
       \<and> CHR ''?'' \<notin> set queryString
       \<and> count_list (add_query ns url q) CHR ''?''
           = count_list url CHR ''?'' + (if present = [] then 0 else 1))
   \<and> generateUrl ns route opts =
       (let base = (case options_params opts of
                      None \<Rightarrow> RouteDefinition.path route
                    | Some ps \<Rightarrow> replace_params ns (RouteDefinition.path route) ps)
        in case options_query opts of None \<Rightarrow> base | Some q' \<Rightarrow> add_query ns base q')
   \<and> getPath ns p pps search =
       (let base = (case pps of None \<Rightarrow> p | Some ps \<Rightarrow> replace_params ns p ps)
        in case search of None \<Rightarrow> base | Some q' \<Rightarrow> add_query ns base q')"
proof -
  let ?present = "filter (\<lambda>(k, v). v \<noteq> JUndefined) q"
  let ?qs = "join_amp (map (\<lambda>(k, v). urlencode k @ ''='' @ urlencode (String_js ns v)) ?present)"
  have a: "append_all ns q = map (\<lambda>(k, v). (k, String_js ns v)) ?present"
    by (rule append_all_present)
  have b: "add_query ns url q = (if ?present = [] then url else url @ ''?'' @ ?qs)"
    by (simp add: add_query_eq Let_def)
  have c: "CHR ''?'' \<notin> set ?qs"
    by (rule queryString_no_qmark)
  have d: "count_list (add_query ns url q) CHR ''?''
             = count_list url CHR ''?'' + (if ?present = [] then 0 else 1)"
    using c by (simp add: b count_list_0_iff)
  have e: "generateUrl ns route opts =
       (let base = (case options_params opts of
                      None \<Rightarrow> RouteDefinition.path route
                    | Some ps \<Rightarrow> replace_params ns (RouteDefinition.path route) ps)
        in case options_query opts of None \<Rightarrow> base | Some q' \<Rightarrow> add_query ns base q')"
    by (simp add: generateUrl_def Let_def split: option.splits)
  have f: "getPath ns p pps search =
       (let base = (case pps of None \<Rightarrow> p | Some ps \<Rightarrow> replace_params ns p ps)
        in case search of None \<Rightarrow> base | Some q' \<Rightarrow> add_query ns base q')"
    by (simp add: getPath_def Let_def split: option.splits)
  from a b c d e f show ?thesis
    by (simp only: Let_def) blast
qed

theorem C6_query_string_assembly_witness:
  "generateUrl decimal \<lparr>RouteDefinition.path = ''/user/:id'', params = None, query = None\<rparr>
      (Some \<lparr>options.params = Some [(''id'', JStr ''42'')],
             query = Some [(''page'', JUndefined), (''tab'', JStr ''a b&c?''), (''n'', JNum 12),
                           (''ok'', JBool True)]\<rparr>)
     = ''/user/42?tab=a+b%26c%3F&n=12&ok=true''
   \<and> generateUrl decimal \<lparr>RouteDefinition.path = ''/about'', params = None, query = None\<rparr>
      (Some \<lparr>options.params = None, query = Some [(''page'', JUndefined)]\<rparr>)
     = ''/about''
   \<and> getPath decimal ''/about'' None None = ''/about''"
proof -
  let ?q = "[(''page'', JUndefined), (''tab'', JStr ''a b&c?''), (''n'', JNum (12::nat)),
             (''ok'', JBool True)]"
  let ?r = "\<lparr>RouteDefinition.path = ''/user/:id'', params = None :: nat schema option, query = None\<rparr>"
  let ?o = "Some \<lparr>options.params = Some [(''id'', JStr ''42'')], query = Some ?q\<rparr>"
  let ?r2 = "\<lparr>RouteDefinition.path = ''/about'', params = None :: nat schema option, query = None\<rparr>"
  let ?o2 = "Some \<lparr>options.params = None, query = Some [(''page'', JUndefined :: nat jsval)]\<rparr>"
  have base: "replace_params decimal ''/user/:id'' [(''id'', JStr ''42'')] = ''/user/42''"
    by (simp add: replace_params_def replace_js_def startsWith_js_def)
  have enc: "join_amp (map (\<lambda>(k, v). urlencode k @ ''='' @ urlencode (String_js decimal v))
                          (filter (\<lambda>(k, v). v \<noteq> JUndefined) ?q))
               = ''tab=a+b%26c%3F&n=12&ok=true''"
    by code_simp
  have one: "generateUrl decimal ?r ?o = ''/user/42?tab=a+b%26c%3F&n=12&ok=true''"
    using C6_query_string_assembly [of ?q decimal "''/user/42''" ?r ?o "''/about''" None None] base enc
    by (simp add: options_params_def options_query_def Let_def)
  have two: "generateUrl decimal ?r2 ?o2 = ''/about''
             \<and> getPath decimal ''/about'' None None = ''/about''"
    using C6_query_string_assembly
            [of "[(''page'', JUndefined :: nat jsval)]" decimal "''/about''" ?r2 ?o2 "''/about''" None None]
    by (simp add: options_params_def options_query_def Let_def)
  from one two show ?thesis by blast
qed

section \<open>Pathname comparison\<close>

lemma startsWith_js_prefix: "startsWith_js s p \<longleftrightarrow> prefix p s"
  unfolding startsWith_js_def
  by (metis append_eq_conv_conj prefix_def take_is_prefix)

lemma split_js_nonempty: "split_js s sep \<noteq> []"
  by (induction s) (auto split: list.splits)

lemma split_js_snoc: "split_js (s @ [sep]) sep = split_js s sep @ [[]]"
  by (induction s) (auto split: list.splits simp add: split_js_nonempty)

lemma split_js_free: "\<forall>x\<in>set (split_js s sep). sep \<notin> set x"
  by (induction s) (auto split: list.splits)

lemma split_js_join: "concat (map (\<lambda>x. x @ [sep]) (split_js s sep)) = s @ [sep]"
  by (induction s) (auto split: list.splits simp add: split_js_nonempty)

lemma piece_prefix:
  "sep \<notin> set x \<Longrightarrow> sep \<notin> set y \<Longrightarrow>
     prefix (x @ sep # a) (y @ sep # b) \<longleftrightarrow> x = y \<and> prefix a b"
proof (induction x arbitrary: y)
  case Nil
  then show ?case by (cases y) auto
next
  case (Cons c x)
  then show ?case by (cases y) auto
qed

lemma joined_prefix:
  "\<forall>x\<in>set xs. sep \<notin> set x \<Longrightarrow> \<forall>y\<in>set ys. sep \<notin> set y \<Longrightarrow>
     prefix (concat (map (\<lambda>x. x @ [sep]) xs)) (concat (map (\<lambda>x. x @ [sep]) ys)) \<longleftrightarrow> prefix xs ys"
proof (induction xs arbitrary: ys)
  case Nil
  then show ?case by simp
next
  case (Cons x xs)
  show ?case
  proof (cases ys)
    case Nil
    then show ?thesis by simp
  next
    case (Cons y ys')
    with Cons.prems Cons.IH [of ys'] show ?thesis
      by (simp add: piece_prefix)
  qed
qed

lemma slashed_prefix:
  "prefix (a @ ''/'') (b @ ''/'') \<longleftrightarrow> prefix (split_js a CHR ''/'') (split_js b CHR ''/'')"
  using joined_prefix [of "split_js a CHR ''/''" "CHR ''/''" "split_js b CHR ''/''"]
  by (simp add: split_js_free split_js_join)

lemma with_trailing_slash_snoc: "\<exists>s0. with_trailing_slash s = s0 @ ''/''"
proof (cases "endsWith_js s ''/''")
  case True
  then have "length s \<ge> 1" and "drop (length s - 1) s = ''/''"
    by (simp_all add: endsWith_js_def)
  then have "s = take (length s - 1) s @ ''/''"
    by (metis append_take_drop_id)
  with True show ?thesis
    by (auto simp add: with_trailing_slash_def)
next
  case False
  then show ?thesis by (simp add: with_trailing_slash_def)
qed

lemma segments_prefix:
  "prefix (with_trailing_slash r) (with_trailing_slash p) \<longleftrightarrow> prefix (path_segments r) (path_segments p)"
proof -
  obtain r0 where r0: "with_trailing_slash r = r0 @ ''/''"
    using with_trailing_slash_snoc by blast
  obtain p0 where p0: "with_trailing_slash p = p0 @ ''/''"
    using with_trailing_slash_snoc by blast
  show ?thesis
    using slashed_prefix [of r0 p0]
    by (simp add: path_segments_def r0 p0 split_js_snoc)
qed

text \<open>
  Claim C10. \<open>startsWith\<close> tests the prefix relation between the route's path and the
  current pathname after both got their trailing slash, which is the prefix relation
  between their lists of segments: a match ends at a segment boundary. So \<open>/blogger\<close>
  does not start with the route \<open>/blog\<close>, while \<open>/blog\<close> and \<open>/blog/post\<close> do.
\<close>

theorem C10_startsWith_whole_segments:
  "startsWith (Some p) route
     = startsWith_js (with_trailing_slash p) (with_trailing_slash (RouteDefinition.path route))
   \<and> startsWith (Some p) route
     = prefix (path_segments (RouteDefinition.path route)) (path_segments p)
   \<and> \<not> startsWith (Some ''/blogger'') \<lparr>RouteDefinition.path = ''/blog'', params = None, query = None\<rparr>
   \<and> startsWith (Some ''/blog'') \<lparr>RouteDefinition.path = ''/blog'', params = None, query = None\<rparr>
   \<and> startsWith (Some ''/blog/post'') \<lparr>RouteDefinition.path = ''/blog'', params = None, query = None\<rparr>"
proof -
  have form: "startsWith (Some p) route
     = startsWith_js (with_trailing_slash p) (with_trailing_slash (RouteDefinition.path route))"
    by (simp add: startsWith_def with_trailing_slash_def Let_def)
  have segs: "startsWith (Some p) route
     = prefix (path_segments (RouteDefinition.path route)) (path_segments p)"
    by (simp only: form startsWith_js_prefix segments_prefix)
  have ex: "\<not> startsWith (Some ''/blogger'') \<lparr>RouteDefinition.path = ''/blog'', params = None, query = None\<rparr>"
    "startsWith (Some ''/blog'') \<lparr>RouteDefinition.path = ''/blog'', params = None, query = None\<rparr>"
    "startsWith (Some ''/blog/post'') \<lparr>RouteDefinition.path = ''/blog'', params = None, query = None\<rparr>"
    by (simp_all add: startsWith_def endsWith_js_def startsWith_js_def)
  from form segs ex show ?thesis by blast
qed

end
